theory Spec2Isabelle
  imports Complex_Main
begin

section \<open>Bytes, text and headers\<close>

text \<open>
  A Python \<^verbatim>\<open>bytes\<close> value is a list of 8-bit characters; a header is a pair of
  byte strings, and a header list keeps order and duplicates.
\<close>

type_synonym bytes = string
type_synonym header = "bytes \<times> bytes"

text \<open>
  \<^verbatim>\<open>bytes.lower()\<close> maps the ASCII letters A..Z (65..90) to a..z and leaves every
  other byte alone.
\<close>

definition lower_byte :: "char \<Rightarrow> char" where
  "lower_byte c =
     (let n = (of_char c :: nat)
      in if 65 \<le> n \<and> n \<le> 90 then char_of (n + 32) else c)"

definition lower :: "bytes \<Rightarrow> bytes" where
  "lower b = map lower_byte b"

text \<open>The conversion \<^verbatim>\<open>%d\<close> of an integer: decimal digits, a minus sign when negative.\<close>

fun digits :: "nat \<Rightarrow> string" where
  "digits n =
     (if n < 10 then [char_of (48 + n)]
      else digits (n div 10) @ [char_of (48 + n mod 10)])"

declare digits.simps [simp del]

definition format_d :: "int \<Rightarrow> string" where
  "format_d i = (if i < 0 then CHR ''-'' # digits (nat (- i)) else digits (nat i))"

text \<open>
  Exceptions are values. \<open>Collaborator\<close> stands for whatever a collaborator outside
  these sources raises (the wrapped connection, the network stream): connect, read,
  write and protocol errors, which are their own exception classes.
\<close>

datatype exception =
    ProxyError string
  | KeyError string
  | UnicodeDecodeError
  | NameError string
  | RuntimeError string
  | Collaborator nat

text \<open>
  \<^verbatim>\<open>b.decode("ascii", errors="ignore")\<close> drops every byte above 127;
  \<^verbatim>\<open>b.decode("ascii")\<close> raises on such a byte.
\<close>

definition is_ascii :: "char \<Rightarrow> bool" where
  "is_ascii c \<longleftrightarrow> (of_char c :: nat) < 128"

definition decode_ascii_ignore :: "bytes \<Rightarrow> string" where
  "decode_ascii_ignore b = filter is_ascii b"

definition decode_ascii :: "bytes \<Rightarrow> exception + string" where
  "decode_ascii b = (if list_all is_ascii b then Inr b else Inl UnicodeDecodeError)"

text \<open>
  \<^verbatim>\<open>base64.b64encode\<close> of the standard library: three bytes become four characters
  of the alphabet below, the last group padded with \<open>=\<close>.
\<close>

definition b64_alphabet :: string where
  "b64_alphabet = ''ABCDEFGHIJKLMNOPQRSTUVWXYZabcdefghijklmnopqrstuvwxyz0123456789+/''"

definition b64_char :: "nat \<Rightarrow> char" where
  "b64_char n = b64_alphabet ! n"

fun b64_groups :: "nat list \<Rightarrow> string" where
  "b64_groups [] = []"
| "b64_groups [a] =
     [b64_char (a div 4), b64_char ((a mod 4) * 16), CHR ''='', CHR ''='']"
| "b64_groups [a, b] =
     [b64_char (a div 4), b64_char ((a mod 4) * 16 + b div 16),
      b64_char ((b mod 16) * 4), CHR ''='']"
| "b64_groups (a # b # c # rest) =
     [b64_char (a div 4), b64_char ((a mod 4) * 16 + b div 16),
      b64_char ((b mod 16) * 4 + c div 64), b64_char (c mod 64)] @ b64_groups rest"

definition b64encode :: "bytes \<Rightarrow> bytes" where
  "b64encode s = b64_groups (map of_char s)"

section \<open>http_proxy: merge_headers and build_auth_header\<close>

definition merge_headers :: "header list option \<Rightarrow> header list option \<Rightarrow> header list" where
  "merge_headers default_headers override_headers =
     (let default_headers = (case default_headers of None \<Rightarrow> [] | Some hs \<Rightarrow> hs);
          override_headers = (case override_headers of None \<Rightarrow> [] | Some hs \<Rightarrow> hs);
          has_override = set (map (\<lambda>(key, value). lower key) override_headers);
          default_headers =
            [(key, value). (key, value) \<leftarrow> default_headers, lower key \<notin> has_override]
      in default_headers @ override_headers)"

definition build_auth_header :: "bytes \<Rightarrow> bytes \<Rightarrow> bytes" where
  "build_auth_header username password =
     (let userpass = username @ '':'' @ password
      in ''Basic '' @ b64encode userpass)"

text \<open>The reading of an optional header list that the claims use: None is the empty list.\<close>

definition or_empty :: "header list option \<Rightarrow> header list" where
  "or_empty hs = (case hs of None \<Rightarrow> [] | Some xs \<Rightarrow> xs)"

text \<open>A default entry is overridden when some override entry has the same lowercased name.\<close>

definition overridden :: "header list \<Rightarrow> header \<Rightarrow> bool" where
  "overridden overrides h = list_ex (\<lambda>h'. lower (fst h') = lower (fst h)) overrides"

section \<open>The data model of requests, responses and connections\<close>

text \<open>
  Origin, URL, Request and Response are classes of \<^verbatim>\<open>_models\<close>; the records below hold
  the fields that the proxy code reads and writes, and building a record stands for
  calling the constructor, which keeps arguments of these types as they are given.
  Times in seconds are Python floats that the code only passes on.
\<close>

type_synonym seconds = real

record Origin =
  scheme :: bytes
  host :: bytes
  port :: int

record URL =
  url_scheme :: bytes
  url_host :: bytes
  url_port :: "int option"
  target :: bytes

datatype network_stream = NetworkStream nat

datatype ssl_object = SSLObject nat

datatype body = ByteStream bytes | ChunkStream "bytes list"

text \<open>
  The extensions of a request are a dictionary; the keys the library recognises are
  \<^verbatim>\<open>timeout\<close> (itself a dictionary from names to seconds or None, kept as an
  association list), \<^verbatim>\<open>sni_hostname\<close> and \<^verbatim>\<open>trace\<close>. A key that is absent
  is None here.
\<close>

record Extensions =
  timeout :: "(string \<times> seconds option) list option"
  sni_hostname :: "bytes option"
  trace :: "nat option"

record Request =
  request_method :: bytes
  url :: URL
  headers :: "header list"
  stream :: body
  extensions :: Extensions

text \<open>
  The extensions of a response: the codec files the reason phrase under
  \<^verbatim>\<open>reason_phrase\<close> and the raw stream under \<^verbatim>\<open>network_stream\<close>; either
  key may be absent.
\<close>

record ResponseExtensions =
  reason_phrase :: "bytes option"
  network_stream :: "network_stream option"

record Response =
  status :: int
  response_headers :: "header list"
  response_extensions :: ResponseExtensions

record SSLContext =
  context_id :: nat
  alpn_protocols :: "string list"

record tls_kwargs =
  kw_ssl_context :: SSLContext
  kw_server_hostname :: string
  kw_timeout :: "seconds option"

text \<open>
  The connections the proxy code constructs, each with the arguments it is given:
  the generic HTTPConnection to an origin, and the HTTP/1.1 and HTTP/2 connections
  bound to an origin and a stream. The last argument is keepalive_expiry.
\<close>

datatype connection =
    HTTPConnection Origin "seconds option"
  | HTTP11Connection Origin network_stream "seconds option"
  | HTTP2Connection Origin network_stream "seconds option"

text \<open>
  What the proxy code asks of its collaborators is recorded, in order, as a list of
  events; what the collaborators answer is the environment: the outcome of
  \<^verbatim>\<open>handle_request\<close> on a connection, of \<^verbatim>\<open>start_tls\<close> on a stream, the
  \<^verbatim>\<open>ssl_object\<close> of a stream, its selected ALPN protocol, and the context that
  \<^verbatim>\<open>default_ssl_context()\<close> builds. A collaborator that raises answers \<open>Inl\<close>.
  \<^verbatim>\<open>close()\<close> returns nothing; its call is the event \<open>Close\<close>.
\<close>

datatype event =
    HandleRequest connection Request
  | Close connection
  | StartTLS network_stream tls_kwargs

record env =
  handle_request_of :: "connection \<Rightarrow> Request \<Rightarrow> nat + Response"
  start_tls :: "network_stream \<Rightarrow> tls_kwargs \<Rightarrow> nat + network_stream"
  get_ssl_object :: "network_stream \<Rightarrow> ssl_object option"
  selected_alpn_protocol :: "ssl_object \<Rightarrow> string option"
  default_ssl_context :: SSLContext

section \<open>http_proxy: TunnelHTTPConnection\<close>

text \<open>
  The fields of a TunnelHTTPConnection, prefixed \<open>t_\<close>. The lock serialises the
  handshake between tasks and has no sequential effect; the Trace scope reports to the
  trace extension and is left out.
\<close>

record TunnelHTTPConnection =
  t_connection :: connection
  t_proxy_origin :: Origin
  t_remote_origin :: Origin
  t_ssl_context :: "SSLContext option"
  t_proxy_headers :: "header list"
  t_keepalive_expiry :: "seconds option"
  t_http1 :: bool
  t_http2 :: bool
  t_connected :: bool

text \<open>\<^verbatim>\<open>request.extensions.get("timeout", {}).get("connect", None)\<close>\<close>

definition connect_timeout :: "Request \<Rightarrow> seconds option" where
  "connect_timeout request =
     (let timeouts = (case timeout (extensions request) of None \<Rightarrow> [] | Some ts \<Rightarrow> ts)
      in case map_of timeouts ''connect'' of None \<Rightarrow> None | Some v \<Rightarrow> v)"

text \<open>\<^verbatim>\<open>b"%b:%d" % (host, port)\<close> of the remote origin.\<close>

definition connect_target :: "TunnelHTTPConnection \<Rightarrow> bytes" where
  "connect_target t =
     host (t_remote_origin t) @ '':'' @ format_d (port (t_remote_origin t))"

definition connect_request :: "TunnelHTTPConnection \<Rightarrow> Request \<Rightarrow> Request" where
  "connect_request t request =
     (let target = connect_target t;
          connect_url = \<lparr>url_scheme = scheme (t_proxy_origin t),
                         url_host = host (t_proxy_origin t),
                         url_port = Some (port (t_proxy_origin t)),
                         target = target\<rparr>;
          connect_headers =
            merge_headers (Some [(''Host'', target), (''Accept'', ''*/*'')])
                          (Some (t_proxy_headers t))
      in \<lparr>request_method = ''CONNECT'', url = connect_url, headers = connect_headers,
          stream = ByteStream [], extensions = extensions request\<rparr>)"

text \<open>
  \<^verbatim>\<open>ssl_object is not None and ssl_object.selected_alpn_protocol() == "h2"\<close>
  on a stream.
\<close>

definition alpn_is_h2 :: "env \<Rightarrow> network_stream \<Rightarrow> bool" where
  "alpn_is_h2 e s =
     (case get_ssl_object e s of
        None \<Rightarrow> False
      | Some obj \<Rightarrow> selected_alpn_protocol e obj = Some ''h2'')"

text \<open>
  The last step of the handshake: the new HTTP/1.1 or HTTP/2 connection, and the mark
  that the tunnel is connected. The import of the HTTP/2 module at this point is taken
  to succeed.
\<close>

definition create_tunnelled ::
  "TunnelHTTPConnection \<Rightarrow> network_stream \<Rightarrow> bool \<Rightarrow> TunnelHTTPConnection" where
  "create_tunnelled t s http2_negotiated =
     (if http2_negotiated \<or> (t_http2 t \<and> \<not> t_http1 t)
      then t\<lparr>t_connection := HTTP2Connection (t_remote_origin t) s (t_keepalive_expiry t),
              t_connected := True\<rparr>
      else t\<lparr>t_connection := HTTP11Connection (t_remote_origin t) s (t_keepalive_expiry t),
              t_connected := True\<rparr>)"

text \<open>
  The upgrade of the stream to TLS. \<^verbatim>\<open>set_alpn_protocols\<close> writes the list into the
  context object, which is the connection's own when it has one.
\<close>

definition upgrade_to_tls ::
  "env \<Rightarrow> TunnelHTTPConnection \<Rightarrow> seconds option \<Rightarrow> network_stream \<Rightarrow>
     (exception + network_stream \<times> bool) \<times> TunnelHTTPConnection \<times> event list" where
  "upgrade_to_tls e t tmo s =
     (let ssl_context = (case t_ssl_context t of None \<Rightarrow> default_ssl_context e | Some c \<Rightarrow> c);
          alpn = (if t_http2 t then [''http/1.1'', ''h2''] else [''http/1.1'']);
          ssl_context = ssl_context\<lparr>alpn_protocols := alpn\<rparr>;
          t = t\<lparr>t_ssl_context := map_option (\<lambda>c. ssl_context) (t_ssl_context t)\<rparr>
      in case decode_ascii (host (t_remote_origin t)) of
           Inl err \<Rightarrow> (Inl err, t, [])
         | Inr hostname \<Rightarrow>
             (let kwargs = \<lparr>kw_ssl_context = ssl_context, kw_server_hostname = hostname,
                            kw_timeout = tmo\<rparr>
              in case start_tls e s kwargs of
                   Inl err \<Rightarrow> (Inl (Collaborator err), t, [StartTLS s kwargs])
                 | Inr s' \<Rightarrow> (Inr (s', alpn_is_h2 e s'), t, [StartTLS s kwargs])))"

text \<open>The body of \<^verbatim>\<open>if not self._connected\<close>: the CONNECT handshake.\<close>

definition connect_handshake ::
  "env \<Rightarrow> TunnelHTTPConnection \<Rightarrow> Request \<Rightarrow> seconds option \<Rightarrow>
     (exception + unit) \<times> TunnelHTTPConnection \<times> event list" where
  "connect_handshake e t request tmo =
     (let creq = connect_request t request;
          sent = [HandleRequest (t_connection t) creq]
      in case handle_request_of e (t_connection t) creq of
           Inl err \<Rightarrow> (Inl (Collaborator err), t, sent)
         | Inr connect_response \<Rightarrow>
             if status connect_response < 200 \<or> status connect_response > 299
             then
               (let reason_bytes =
                      (case reason_phrase (response_extensions connect_response) of
                         None \<Rightarrow> [] | Some b \<Rightarrow> b);
                    reason_str = decode_ascii_ignore reason_bytes;
                    msg = format_d (status connect_response) @ '' '' @ reason_str
                in (Inl (ProxyError msg), t, sent @ [Close (t_connection t)]))
             else
               (case network_stream (response_extensions connect_response) of
                  None \<Rightarrow> (Inl (KeyError ''network_stream''), t, sent)
                | Some s \<Rightarrow>
                    if scheme (t_remote_origin t) = ''https''
                    then
                      (case upgrade_to_tls e t tmo s of
                         (Inl err, t', evs) \<Rightarrow> (Inl err, t', sent @ evs)
                       | (Inr (s', http2_negotiated), t', evs) \<Rightarrow>
                           (Inr (), create_tunnelled t' s' http2_negotiated, sent @ evs))
                    else (Inr (), create_tunnelled t s False, sent)))"

definition tunnel_handle_request ::
  "env \<Rightarrow> TunnelHTTPConnection \<Rightarrow> Request \<Rightarrow>
     (exception + Response) \<times> TunnelHTTPConnection \<times> event list" where
  "tunnel_handle_request e t request =
     (let tmo = connect_timeout request;
          (r, t', evs) = (if \<not> t_connected t then connect_handshake e t request tmo
                          else (Inr (), t, []))
      in case r of
           Inl err \<Rightarrow> (Inl err, t', evs)
         | Inr u \<Rightarrow>
             (case handle_request_of e (t_connection t') request of
                Inl err \<Rightarrow>
                  (Inl (Collaborator err), t', evs @ [HandleRequest (t_connection t') request])
              | Inr response \<Rightarrow>
                  (Inr response, t', evs @ [HandleRequest (t_connection t') request])))"

section \<open>http_proxy: ForwardHTTPConnection\<close>

record ForwardHTTPConnection =
  f_connection :: connection
  f_proxy_origin :: Origin
  f_proxy_headers :: "header list"
  f_remote_origin :: Origin

text \<open>
  The request that \<^verbatim>\<open>handle_request\<close> builds. \<^verbatim>\<open>bytes(request.url)\<close> is the
  absolute form of the URL, computed by \<^verbatim>\<open>URL.__bytes__\<close> of \<^verbatim>\<open>_models\<close>;
  it is the parameter \<open>URL_bytes\<close>.
\<close>

definition forward_proxy_request ::
  "(URL \<Rightarrow> bytes) \<Rightarrow> ForwardHTTPConnection \<Rightarrow> Request \<Rightarrow> Request" where
  "forward_proxy_request URL_bytes f request =
     (let headers = merge_headers (Some (f_proxy_headers f)) (Some (headers request));
          url = \<lparr>url_scheme = scheme (f_proxy_origin f),
                 url_host = host (f_proxy_origin f),
                 url_port = Some (port (f_proxy_origin f)),
                 target = URL_bytes (url request)\<rparr>
      in \<lparr>request_method = request_method request, url = url, headers = headers,
          stream = stream request, extensions = extensions request\<rparr>)"

definition forward_handle_request ::
  "(URL \<Rightarrow> bytes) \<Rightarrow> env \<Rightarrow> ForwardHTTPConnection \<Rightarrow> Request \<Rightarrow>
     (exception + Response) \<times> event list" where
  "forward_handle_request URL_bytes e f request =
     (let proxy_request = forward_proxy_request URL_bytes f request
      in (case handle_request_of e (f_connection f) proxy_request of
            Inl err \<Rightarrow> Inl (Collaborator err)
          | Inr response \<Rightarrow> Inr response,
          [HandleRequest (f_connection f) proxy_request]))"

section \<open>http_proxy: HTTPProxy\<close>

text \<open>
  ProxyMode is an enumeration of \<^verbatim>\<open>_models\<close>. The code names its members DEFAULT
  and FORWARD; TUNNEL stands for any other member.
\<close>

datatype ProxyMode = DEFAULT | FORWARD | TUNNEL

record HTTPProxy =
  p_ssl_context :: "SSLContext option"
  p_proxy_url :: URL
  p_proxy_headers :: "header list"
  p_proxy_mode :: ProxyMode
  p_keepalive_expiry :: "seconds option"
  p_http1 :: bool
  p_http2 :: bool

text \<open>
  The constructor, on arguments that \<^verbatim>\<open>enforce_url\<close>, \<^verbatim>\<open>enforce_headers\<close> and
  \<^verbatim>\<open>enforce_bytes\<close> have already normalised: a URL, a header list (empty for None)
  and a pair of byte strings. The arguments that only the pool of connections uses
  (limits, retries, addresses, backend) are left out.
\<close>

definition HTTPProxy_init ::
  "URL \<Rightarrow> (bytes \<times> bytes) option \<Rightarrow> header list \<Rightarrow> SSLContext option \<Rightarrow>
     seconds option \<Rightarrow> bool \<Rightarrow> bool \<Rightarrow> ProxyMode \<Rightarrow> HTTPProxy" where
  "HTTPProxy_init proxy_url proxy_auth proxy_headers ssl_context keepalive_expiry
       http1 http2 proxy_mode =
     (let self = \<lparr>p_ssl_context = ssl_context, p_proxy_url = proxy_url,
                   p_proxy_headers = proxy_headers, p_proxy_mode = proxy_mode,
                   p_keepalive_expiry = keepalive_expiry, p_http1 = http1, p_http2 = http2\<rparr>
      in case proxy_auth of
           None \<Rightarrow> self
         | Some (username, password) \<Rightarrow>
             (let authorization = build_auth_header username password
              in self\<lparr>p_proxy_headers :=
                         [(''Proxy-Authorization'', authorization)] @ p_proxy_headers self\<rparr>))"

datatype proxy_connection =
    Forward ForwardHTTPConnection
  | Tunnel TunnelHTTPConnection

text \<open>
  \<^verbatim>\<open>create_connection\<close>. The origin of the proxy URL is computed by
  \<^verbatim>\<open>URL.origin\<close> of \<^verbatim>\<open>_models\<close>; it is the parameter \<open>URL_origin\<close>.
\<close>

definition create_connection ::
  "(URL \<Rightarrow> Origin) \<Rightarrow> HTTPProxy \<Rightarrow> Origin \<Rightarrow> proxy_connection" where
  "create_connection URL_origin self origin =
     (if p_proxy_mode self = FORWARD \<or>
         (p_proxy_mode self = DEFAULT \<and> scheme origin = ''http'')
      then Forward
             \<lparr>f_connection = HTTPConnection (URL_origin (p_proxy_url self))
                               (p_keepalive_expiry self),
              f_proxy_origin = URL_origin (p_proxy_url self),
              f_proxy_headers = p_proxy_headers self,
              f_remote_origin = origin\<rparr>
      else Tunnel
             \<lparr>t_connection = HTTPConnection (URL_origin (p_proxy_url self))
                               (p_keepalive_expiry self),
              t_proxy_origin = URL_origin (p_proxy_url self),
              t_remote_origin = origin,
              t_ssl_context = p_ssl_context self,
              t_proxy_headers = p_proxy_headers self,
              t_keepalive_expiry = p_keepalive_expiry self,
              t_http1 = p_http1 self,
              t_http2 = p_http2 self,
              t_connected = False\<rparr>)"

definition is_forward :: "proxy_connection \<Rightarrow> bool" where
  "is_forward c = (case c of Forward f \<Rightarrow> True | Tunnel t \<Rightarrow> False)"

section \<open>interfaces: the cleanup after a failed request\<close>

text \<open>
  A connection as \<^verbatim>\<open>AsyncConnectionInterface._cleanup\<close> sees it: an object with an
  identity, its attribute \<^verbatim>\<open>_connection\<close> (missing, None, or a nested connection,
  which the source asserts to be an AsyncConnectionInterface again) and the flag
  \<^verbatim>\<open>_connect_failed\<close>.
\<close>

datatype async_connection =
  AsyncConnection nat sub_connection bool
and sub_connection =
    NoAttribute
  | AttributeNone
  | SubConnection async_connection

text \<open>Objects are compared by identity (\<^verbatim>\<open>is\<close>); a request is its identity here.\<close>

type_synonym request_id = nat

fun connection_cleanup ::
  "async_connection \<Rightarrow> request_id \<Rightarrow> exception \<Rightarrow> exception \<times> async_connection" where
  "connection_cleanup (AsyncConnection i NoAttribute failed) request exc =
     (exc, AsyncConnection i NoAttribute failed)"
| "connection_cleanup (AsyncConnection i AttributeNone failed) request exc =
     (exc, AsyncConnection i AttributeNone True)"
| "connection_cleanup (AsyncConnection i (SubConnection c) failed) request exc =
     (case connection_cleanup c request exc of
        (exc', c') \<Rightarrow> (exc', AsyncConnection i (SubConnection c') failed))"

text \<open>
  The status of a request in the pool's queue: its own identity, the request it is
  for, and the connection bound to it, if any.
\<close>

record RequestStatus =
  status_id :: nat
  status_request :: request_id
  status_connection :: "async_connection option"

datatype pool_event = ResponseClosed RequestStatus

definition is_RuntimeError :: "exception \<Rightarrow> bool" where
  "is_RuntimeError exc = (case exc of RuntimeError m \<Rightarrow> True | _ \<Rightarrow> False)"

text \<open>
  The names that the module \<^verbatim>\<open>interfaces\<close> binds: its imports (lines 1 to 16) and
  its two classes. A name of a function body that is neither a local variable, nor
  bound here, nor a builtin, raises NameError when it is evaluated.
\<close>

definition interfaces_globals :: "string list" where
  "interfaces_globals =
     [''sys'', ''asynccontextmanager'', ''AsyncIterator'', ''Optional'', ''Union'',
      ''URL'', ''Extensions'', ''HeaderTypes'', ''Origin'', ''Request'', ''Response'',
      ''enforce_bytes'', ''enforce_headers'', ''enforce_url'', ''include_request_headers'',
      ''AsyncRequestInterface'', ''AsyncConnectionInterface'']"

definition is_bound :: "string \<Rightarrow> bool" where
  "is_bound name \<longleftrightarrow> name \<in> set interfaces_globals"

text \<open>
  \<^verbatim>\<open>AsyncRequestInterface._cleanup\<close>, on the queue \<^verbatim>\<open>self._requests\<close>. The
  argument \<open>exc_info\<close> is the exception in flight (\<^verbatim>\<open>sys.exc_info()\<close>), None when
  there is none. The result is \<open>Inr ()\<close> when the call returns and \<open>Inl\<close> the
  exception it raises; with it come the queue afterwards and the calls to
  \<^verbatim>\<open>response_closed\<close>, a function of the pool.

  The statement \<^verbatim>\<open>with AsyncShieldCancellation():\<close> first evaluates the name
  \<^verbatim>\<open>AsyncShieldCancellation\<close>, a global of the module. Entering and leaving the
  scope, like taking the pool lock, would have no sequential effect. In the branch of
  a bound connection, \<^verbatim>\<open>connection\<close> is no local variable of the function (the
  bound connection is \<^verbatim>\<open>status.connection\<close>) and no global of the module:
  evaluating it raises NameError.
\<close>

definition request_cleanup ::
  "exception option \<Rightarrow> RequestStatus list \<Rightarrow> request_id \<Rightarrow>
     (exception + unit) \<times> RequestStatus list \<times> pool_event list" where
  "request_cleanup exc_info requests request =
     (case exc_info of
        None \<Rightarrow> (Inr (), requests, [])
      | Some exc \<Rightarrow>
          (let s = filter (\<lambda>st. status_request st = request) requests
           in if s \<noteq> []
              then
                if \<not> is_bound ''AsyncShieldCancellation''
                then (Inl (NameError ''AsyncShieldCancellation''), requests, [])
                else
                  (let st = last s
                   in case status_connection st of
                        None \<Rightarrow>
                          (Inl exc,
                           (if st \<in> set requests then remove1 st requests else requests),
                           [])
                      | Some c \<Rightarrow>
                          if \<not> is_RuntimeError exc
                          then (Inl (NameError ''connection''), requests, [])
                          else (Inl exc, requests, [ResponseClosed st]))
              else (Inl exc, requests, [])))"

section \<open>Readings of the event list and example values\<close>

text \<open>The ALPN lists offered by the TLS upgrades among the events, in order.\<close>

fun offered_alpn :: "event list \<Rightarrow> string list list" where
  "offered_alpn [] = []"
| "offered_alpn (StartTLS s kw # evs) = alpn_protocols (kw_ssl_context kw) # offered_alpn evs"
| "offered_alpn (ev # evs) = offered_alpn evs"

text \<open>
  A proxy at http://p:3128, the destinations https://s:443 and http://s:80, a GET
  request, and a tunnel connection that has not yet connected.
\<close>

definition proxy_origin_ex :: Origin where
  "proxy_origin_ex = \<lparr>scheme = ''http'', host = ''p'', port = 3128\<rparr>"

definition remote_https_ex :: Origin where
  "remote_https_ex = \<lparr>scheme = ''https'', host = ''s'', port = 443\<rparr>"

definition remote_http_ex :: Origin where
  "remote_http_ex = \<lparr>scheme = ''http'', host = ''s'', port = 80\<rparr>"

definition proxy_url_ex :: URL where
  "proxy_url_ex = \<lparr>url_scheme = ''http'', url_host = ''p'', url_port = Some 3128, target = ''/''\<rparr>"

definition URL_origin_ex :: "URL \<Rightarrow> Origin" where
  "URL_origin_ex u =
     \<lparr>scheme = url_scheme u, host = url_host u,
      port = (case url_port u of
                None \<Rightarrow> (if url_scheme u = ''https'' then 443 else 80)
              | Some p \<Rightarrow> p)\<rparr>"

definition URL_bytes_ex :: "URL \<Rightarrow> bytes" where
  "URL_bytes_ex u =
     (case url_port u of
        None \<Rightarrow> url_scheme u @ ''://'' @ url_host u @ target u
      | Some p \<Rightarrow> url_scheme u @ ''://'' @ url_host u @ '':'' @ format_d p @ target u)"

definition request_ex :: Request where
  "request_ex =
     \<lparr>request_method = ''GET'',
      url = \<lparr>url_scheme = ''http'', url_host = ''s'', url_port = None, target = ''/x''\<rparr>,
      headers = [(''Host'', ''s''), (''user-agent'', ''mine'')],
      stream = ByteStream [],
      extensions = \<lparr>timeout = None, sni_hostname = None, trace = None\<rparr>\<rparr>"

definition tunnel_ex :: "bool \<Rightarrow> bool \<Rightarrow> Origin \<Rightarrow> header list \<Rightarrow> TunnelHTTPConnection" where
  "tunnel_ex h1 h2 remote proxy_headers =
     \<lparr>t_connection = HTTPConnection proxy_origin_ex None,
      t_proxy_origin = proxy_origin_ex,
      t_remote_origin = remote,
      t_ssl_context = None,
      t_proxy_headers = proxy_headers,
      t_keepalive_expiry = None,
      t_http1 = h1,
      t_http2 = h2,
      t_connected = False\<rparr>"

definition forward_ex :: ForwardHTTPConnection where
  "forward_ex =
     \<lparr>f_connection = HTTPConnection proxy_origin_ex None,
      f_proxy_origin = proxy_origin_ex,
      f_proxy_headers = [(''User-Agent'', ''proxy''), (''Via'', ''p'')],
      f_remote_origin = remote_http_ex\<rparr>"

text \<open>
  Collaborators for the examples: every request is answered with the given status and
  reason phrase on the raw stream 1; the TLS upgrade gives stream 2, whose ssl_object
  reports the given ALPN protocol; the raw stream has no ssl_object.
\<close>

definition response_ex :: "int \<Rightarrow> bytes \<Rightarrow> Response" where
  "response_ex code reason =
     \<lparr>status = code, response_headers = [],
      response_extensions =
        \<lparr>reason_phrase = Some reason, network_stream = Some (NetworkStream 1)\<rparr>\<rparr>"

definition env_ex :: "int \<Rightarrow> bytes \<Rightarrow> string option \<Rightarrow> env" where
  "env_ex code reason alpn =
     \<lparr>handle_request_of = (\<lambda>c r. Inr (response_ex code reason)),
      start_tls = (\<lambda>s kw. Inr (NetworkStream 2)),
      get_ssl_object = (\<lambda>s. if s = NetworkStream 2 then Some (SSLObject 0) else None),
      selected_alpn_protocol = (\<lambda>obj. alpn),
      default_ssl_context = \<lparr>context_id = 0, alpn_protocols = []\<rparr>\<rparr>"

text \<open>
  For the cleanup: a connection nested in another, the inner one not yet connected,
  and request statuses for the requests 7 and 8.
\<close>

definition conn_ex :: async_connection where
  "conn_ex = AsyncConnection 1 (SubConnection (AsyncConnection 2 AttributeNone False)) False"

definition bound_status_ex :: RequestStatus where
  "bound_status_ex = \<lparr>status_id = 0, status_request = 7, status_connection = Some conn_ex\<rparr>"

definition unbound_status_ex :: RequestStatus where
  "unbound_status_ex = \<lparr>status_id = 1, status_request = 7, status_connection = None\<rparr>"

definition other_status_ex :: RequestStatus where
  "other_status_ex = \<lparr>status_id = 2, status_request = 8, status_connection = None\<rparr>"

section \<open>Lemmas on merging\<close>

lemma comprehension_is_filter:
  "[(key, value). (key, value) \<leftarrow> xs, P key] = filter (\<lambda>h. P (fst h)) xs"
  by (induction xs) auto

lemma overridden_iff:
  "overridden os h \<longleftrightarrow> lower (fst h) \<in> set (map (\<lambda>(key, value). lower key) os)"
  by (induction os) (auto simp: overridden_def)

lemma merge_headers_filter:
  "merge_headers d o' =
     filter (\<lambda>h. \<not> overridden (or_empty o') h) (or_empty d) @ or_empty o'"
  unfolding merge_headers_def Let_def or_empty_def comprehension_is_filter overridden_iff
  by simp

lemma overrides_all_overridden:
  "filter (\<lambda>h. \<not> overridden os h) os = []"
  by (auto simp: filter_empty_conv overridden_def list_ex_iff)

section \<open>Claims on merge_headers\<close>

text \<open>
  C1. For every pair of header lists (defaults, overrides), merge_headers returns exactly
  the default entries whose lowercased name is not the lowercased name of any override
  entry, in their original order, followed by all override entries in their original
  order; a None argument is treated as the empty list.
\<close>

theorem C1_merge_headers_exact:
  "merge_headers d o' =
     filter (\<lambda>h. \<not> list_ex (\<lambda>h'. lower (fst h') = lower (fst h)) (or_empty o')) (or_empty d)
       @ or_empty o'
   \<and> or_empty None = []"
  using merge_headers_filter [of d o']
  by (simp add: overridden_def or_empty_def)

theorem C1_merge_headers_exact_witness:
  "merge_headers (Some [(''Host'', ''a''), (''Accept'', ''*/*''), (''X-A'', ''1'')])
                 (Some [(''hOST'', ''b''), (''X-B'', ''2'')])
     = [(''Accept'', ''*/*''), (''X-A'', ''1''), (''hOST'', ''b''), (''X-B'', ''2'')]"
proof -
  let ?d = "Some [(''Host'', ''a''), (''Accept'', ''*/*''), (''X-A'', ''1'')]"
  let ?o = "Some [(''hOST'', ''b''), (''X-B'', ''2'')]"
  have "merge_headers ?d ?o =
     filter (\<lambda>h. \<not> list_ex (\<lambda>h'. lower (fst h') = lower (fst h)) (or_empty ?o)) (or_empty ?d)
       @ or_empty ?o"
    using C1_merge_headers_exact [of ?d ?o] by (rule conjunct1)
  also have "\<dots> = [(''Accept'', ''*/*''), (''X-A'', ''1''), (''hOST'', ''b''), (''X-B'', ''2'')]"
    by code_simp
  finally show ?thesis .
qed

text \<open>
  C8. Header merging is idempotent in its first argument: for every default list d and
  override list o, merge_headers(merge_headers(d, o), o) equals merge_headers(d, o).
\<close>

theorem C8_merge_headers_idempotent:
  "merge_headers (Some (merge_headers d o')) o' = merge_headers d o'"
  by (simp add: merge_headers_filter or_empty_def overrides_all_overridden)

theorem C8_merge_headers_idempotent_witness:
  "merge_headers (Some (merge_headers (Some [(''Host'', ''a''), (''Accept'', ''*/*'')])
                                      (Some [(''hOST'', ''b'')])))
                 (Some [(''hOST'', ''b'')])
     = [(''Accept'', ''*/*''), (''hOST'', ''b'')]"
proof -
  have "merge_headers (Some [(''Host'', ''a''), (''Accept'', ''*/*'')]) (Some [(''hOST'', ''b'')])
          = [(''Accept'', ''*/*''), (''hOST'', ''b'')]"
    by code_simp
  then show ?thesis
    using C8_merge_headers_idempotent [of "Some [(''Host'', ''a''), (''Accept'', ''*/*'')]"
          "Some [(''hOST'', ''b'')]"]
    by (simp only:)
qed

section \<open>Evaluations used by the examples\<close>

lemma lower_Host: "lower ''Host'' = ''host''"
  by code_simp

lemma lower_Accept: "lower ''Accept'' = ''accept''"
  by code_simp

lemma format_d_407: "format_d 407 = ''407''"
  by code_simp

lemma decode_reason_407:
  "decode_ascii_ignore ''Proxy Authentication Required'' = ''Proxy Authentication Required''"
  by code_simp

lemma decode_host_s: "decode_ascii ''s'' = Inr ''s''"
  by code_simp

lemma b64encode_user_pass: "b64encode ''user:pass'' = ''dXNlcjpwYXNz''"
  by code_simp

section \<open>Claims on HTTPProxy\<close>

text \<open>
  C9. When proxy_auth = (username, password) is given to HTTPProxy, the header
  (Proxy-Authorization, "Basic " + base64(username + ":" + password)) is prepended
  before all caller-supplied proxy_headers, so it precedes any caller-supplied entry of
  the same name.
\<close>

theorem C9_proxy_authorization_prepended:
  "p_proxy_headers
     (HTTPProxy_init proxy_url (Some (username, password)) proxy_headers ctx ke h1 h2 mode)
   = (''Proxy-Authorization'', ''Basic '' @ b64encode (username @ '':'' @ password))
       # proxy_headers"
  by (simp add: HTTPProxy_init_def build_auth_header_def Let_def)

theorem C9_proxy_authorization_prepended_witness:
  "p_proxy_headers
     (HTTPProxy_init proxy_url_ex (Some (''user'', ''pass''))
        [(''proxy-authorization'', ''mine'')] None None True False DEFAULT)
   = [(''Proxy-Authorization'', ''Basic dXNlcjpwYXNz''), (''proxy-authorization'', ''mine'')]"
  using C9_proxy_authorization_prepended [of proxy_url_ex "''user''" "''pass''"
          "[(''proxy-authorization'', ''mine'')]" None None True False DEFAULT]
        b64encode_user_pass
  by simp

text \<open>
  C7, as amended. create_connection returns a forwarding connection exactly when the
  proxy mode is FORWARD, or the proxy mode is DEFAULT and the origin's scheme is http.
  So in the DEFAULT mode an https destination is never served by a
  ForwardHTTPConnection, and in the FORWARD mode every destination is.
\<close>

theorem C7_forward_iff:
  "is_forward (create_connection URL_origin self origin) \<longleftrightarrow>
     p_proxy_mode self = FORWARD \<or> (p_proxy_mode self = DEFAULT \<and> scheme origin = ''http'')"
  by (simp add: create_connection_def is_forward_def)

theorem C7_forward_iff_witness:
  "\<not> is_forward (create_connection URL_origin_ex
        (HTTPProxy_init proxy_url_ex None [] None None True False DEFAULT) remote_https_ex)
   \<and> is_forward (create_connection URL_origin_ex
        (HTTPProxy_init proxy_url_ex None [] None None True False DEFAULT) remote_http_ex)"
  using C7_forward_iff [of URL_origin_ex
          "HTTPProxy_init proxy_url_ex None [] None None True False DEFAULT" remote_https_ex]
        C7_forward_iff [of URL_origin_ex
          "HTTPProxy_init proxy_url_ex None [] None None True False DEFAULT" remote_http_ex]
  by (simp add: HTTPProxy_init_def remote_https_ex_def remote_http_ex_def)

text \<open>
  C7, as the claim states it, fails: in the FORWARD mode the https destination
  https://s:443 is given a ForwardHTTPConnection.
\<close>

theorem C7_https_forwarded_counterexample:
  "scheme remote_https_ex = ''https''
   \<and> create_connection URL_origin_ex
        (HTTPProxy_init proxy_url_ex None [] None None True False FORWARD) remote_https_ex
     = Forward \<lparr>f_connection = HTTPConnection proxy_origin_ex None,
                f_proxy_origin = proxy_origin_ex,
                f_proxy_headers = [],
                f_remote_origin = remote_https_ex\<rparr>"
  by (simp add: create_connection_def HTTPProxy_init_def remote_https_ex_def
        URL_origin_ex_def proxy_url_ex_def proxy_origin_ex_def)

section \<open>Claims on ForwardHTTPConnection\<close>

text \<open>
  C5. For every request handled by a ForwardHTTPConnection, the request forwarded to
  the proxy has: a URL whose scheme, host and port are the proxy origin's and whose
  target is the absolute form of the original URL; headers equal to
  merge_headers(proxy_headers, request.headers), so proxy-supplied headers lose on a
  case-insensitive name collision; and the method, body stream and extensions of the
  original request unchanged.
\<close>

theorem C5_forward_request:
  "snd (forward_handle_request URL_bytes e f request) =
     [HandleRequest (f_connection f) (forward_proxy_request URL_bytes f request)]
   \<and> url (forward_proxy_request URL_bytes f request) =
       \<lparr>url_scheme = scheme (f_proxy_origin f), url_host = host (f_proxy_origin f),
        url_port = Some (port (f_proxy_origin f)), target = URL_bytes (url request)\<rparr>
   \<and> headers (forward_proxy_request URL_bytes f request) =
       merge_headers (Some (f_proxy_headers f)) (Some (headers request))
   \<and> headers (forward_proxy_request URL_bytes f request) =
       filter (\<lambda>h. \<not> list_ex (\<lambda>h'. lower (fst h') = lower (fst h)) (headers request))
         (f_proxy_headers f) @ headers request
   \<and> request_method (forward_proxy_request URL_bytes f request) = request_method request
   \<and> stream (forward_proxy_request URL_bytes f request) = stream request
   \<and> extensions (forward_proxy_request URL_bytes f request) = extensions request"
  by (simp add: forward_handle_request_def forward_proxy_request_def Let_def
        merge_headers_filter or_empty_def overridden_def)

theorem C5_forward_request_witness:
  "snd (forward_handle_request URL_bytes_ex (env_ex 200 ''OK'' None) forward_ex request_ex) =
     [HandleRequest (HTTPConnection proxy_origin_ex None)
        \<lparr>request_method = ''GET'',
         url = \<lparr>url_scheme = ''http'', url_host = ''p'', url_port = Some 3128,
                target = ''http://s/x''\<rparr>,
         headers = [(''Via'', ''p''), (''Host'', ''s''), (''user-agent'', ''mine'')],
         stream = ByteStream [],
         extensions = \<lparr>timeout = None, sni_hostname = None, trace = None\<rparr>\<rparr>]"
proof -
  have "[HandleRequest (f_connection forward_ex)
           (forward_proxy_request URL_bytes_ex forward_ex request_ex)] =
     [HandleRequest (HTTPConnection proxy_origin_ex None)
        \<lparr>request_method = ''GET'',
         url = \<lparr>url_scheme = ''http'', url_host = ''p'', url_port = Some 3128,
                target = ''http://s/x''\<rparr>,
         headers = [(''Via'', ''p''), (''Host'', ''s''), (''user-agent'', ''mine'')],
         stream = ByteStream [],
         extensions = \<lparr>timeout = None, sni_hostname = None, trace = None\<rparr>\<rparr>]"
    by code_simp
  then show ?thesis
    using C5_forward_request [of URL_bytes_ex "env_ex 200 ''OK'' None" forward_ex request_ex]
    by (simp only:)
qed

section \<open>Lemmas on the CONNECT handshake\<close>

lemma connect_headers_cases:
  "headers (connect_request t request) =
     (if list_ex (\<lambda>h. lower (fst h) = ''host'') (t_proxy_headers t) then []
      else [(''Host'', connect_target t)])
     @ (if list_ex (\<lambda>h. lower (fst h) = ''accept'') (t_proxy_headers t) then []
        else [(''Accept'', ''*/*'')])
     @ t_proxy_headers t"
  by (simp add: connect_request_def Let_def merge_headers_filter or_empty_def overridden_def
        lower_Host lower_Accept)

lemma handshake_first_event:
  "\<exists>evs. snd (snd (connect_handshake e t request tmo)) =
     HandleRequest (t_connection t) (connect_request t request) # evs"
  by (auto simp: connect_handshake_def Let_def split: sum.splits option.splits prod.splits)

lemma handshake_refused:
  assumes "handle_request_of e (t_connection t) (connect_request t request) = Inr resp"
    and "status resp < 200 \<or> status resp > 299"
  shows "connect_handshake e t request tmo =
     (Inl (ProxyError (format_d (status resp) @ '' '' @
             decode_ascii_ignore
               (case reason_phrase (response_extensions resp) of None \<Rightarrow> [] | Some b \<Rightarrow> b))),
      t,
      [HandleRequest (t_connection t) (connect_request t request), Close (t_connection t)])"
  using assms by (simp add: connect_handshake_def Let_def)

lemma upgrade_no_ProxyError:
  "fst (upgrade_to_tls e t tmo s) \<noteq> Inl (ProxyError msg)"
  by (auto simp: upgrade_to_tls_def Let_def decode_ascii_def split: sum.splits)

lemma handshake_accepted_no_ProxyError:
  assumes "handle_request_of e (t_connection t) (connect_request t request) = Inr resp"
    and "\<not> (status resp < 200 \<or> status resp > 299)"
  shows "fst (connect_handshake e t request tmo) \<noteq> Inl (ProxyError msg)"
proof (cases "network_stream (response_extensions resp)")
  case None
  with assms show ?thesis by (simp add: connect_handshake_def Let_def)
next
  case (Some s)
  show ?thesis
  proof (cases "scheme (t_remote_origin t) = ''https''")
    case False
    with assms Some show ?thesis by (simp add: connect_handshake_def Let_def)
  next
    case True
    obtain r t' evs where up: "upgrade_to_tls e t tmo s = (r, t', evs)"
      by (cases "upgrade_to_tls e t tmo s") auto
    have "r \<noteq> Inl (ProxyError msg)"
      using upgrade_no_ProxyError [of e t tmo s msg] up by simp
    with assms Some True up show ?thesis
      by (cases r) (auto simp: connect_handshake_def Let_def split: prod.splits)
  qed
qed

lemma tunnel_handle_request_failed:
  assumes "\<not> t_connected t"
    and "connect_handshake e t request (connect_timeout request) = (Inl err, t', evs)"
  shows "tunnel_handle_request e t request = (Inl err, t', evs)"
  using assms by (simp add: tunnel_handle_request_def Let_def)

lemma tunnel_handle_request_connected:
  assumes "\<not> t_connected t"
    and "connect_handshake e t request (connect_timeout request) = (Inr u, t', evs)"
  shows "snd (tunnel_handle_request e t request) =
           (t', evs @ [HandleRequest (t_connection t') request])
       \<and> (fst (tunnel_handle_request e t request) =
            (case handle_request_of e (t_connection t') request of
               Inl err \<Rightarrow> Inl (Collaborator err) | Inr response \<Rightarrow> Inr response))"
  using assms by (simp add: tunnel_handle_request_def Let_def split: sum.splits)

section \<open>Claims on TunnelHTTPConnection\<close>

text \<open>
  C10. In the tunnel CONNECT request, the configured proxy_headers act as overrides
  over the generated defaults: the headers sent are the defaults
  [(Host, host:port), (Accept, */*)] minus any default whose lowercased name also
  appears in proxy_headers, followed by all proxy_headers; so a proxy header named
  Host or Accept (case-insensitively) replaces the generated one. The request with
  these headers is the first thing the handshake sends.
\<close>

theorem C10_connect_headers:
  "headers (connect_request t request) =
     filter (\<lambda>h. \<not> list_ex (\<lambda>h'. lower (fst h') = lower (fst h)) (t_proxy_headers t))
       [(''Host'', host (t_remote_origin t) @ '':'' @ format_d (port (t_remote_origin t))),
        (''Accept'', ''*/*'')]
     @ t_proxy_headers t
   \<and> headers (connect_request t request) =
     (if list_ex (\<lambda>h. lower (fst h) = ''host'') (t_proxy_headers t) then []
      else [(''Host'', host (t_remote_origin t) @ '':'' @ format_d (port (t_remote_origin t)))])
     @ (if list_ex (\<lambda>h. lower (fst h) = ''accept'') (t_proxy_headers t) then []
        else [(''Accept'', ''*/*'')])
     @ t_proxy_headers t
   \<and> (\<exists>evs. snd (snd (connect_handshake e t request tmo)) =
          HandleRequest (t_connection t) (connect_request t request) # evs)"
proof (intro conjI)
  show "headers (connect_request t request) =
     filter (\<lambda>h. \<not> list_ex (\<lambda>h'. lower (fst h') = lower (fst h)) (t_proxy_headers t))
       [(''Host'', host (t_remote_origin t) @ '':'' @ format_d (port (t_remote_origin t))),
        (''Accept'', ''*/*'')]
     @ t_proxy_headers t"
    by (simp add: connect_request_def Let_def merge_headers_filter or_empty_def overridden_def
          connect_target_def)
  show "headers (connect_request t request) =
     (if list_ex (\<lambda>h. lower (fst h) = ''host'') (t_proxy_headers t) then []
      else [(''Host'', host (t_remote_origin t) @ '':'' @ format_d (port (t_remote_origin t)))])
     @ (if list_ex (\<lambda>h. lower (fst h) = ''accept'') (t_proxy_headers t) then []
        else [(''Accept'', ''*/*'')])
     @ t_proxy_headers t"
    using connect_headers_cases [of t request] by (simp add: connect_target_def)
  show "\<exists>evs. snd (snd (connect_handshake e t request tmo)) =
          HandleRequest (t_connection t) (connect_request t request) # evs"
    by (rule handshake_first_event)
qed

theorem C10_connect_headers_witness:
  "headers (connect_request (tunnel_ex True False remote_https_ex [(''hOst'', ''z'')]) request_ex)
     = [(''Accept'', ''*/*''), (''hOst'', ''z'')]"
proof -
  let ?t = "tunnel_ex True False remote_https_ex [(''hOst'', ''z'')]"
  have "headers (connect_request ?t request_ex) =
     filter (\<lambda>h. \<not> list_ex (\<lambda>h'. lower (fst h') = lower (fst h)) (t_proxy_headers ?t))
       [(''Host'', host (t_remote_origin ?t) @ '':'' @ format_d (port (t_remote_origin ?t))),
        (''Accept'', ''*/*'')]
     @ t_proxy_headers ?t"
    using C10_connect_headers [of ?t request_ex] by (rule conjunct1)
  also have "\<dots> = [(''Accept'', ''*/*''), (''hOst'', ''z'')]"
    by code_simp
  finally show ?thesis .
qed

text \<open>
  C2. For every CONNECT handshake on a TunnelHTTPConnection, if the proxy's response
  status is not in [200, 300) then the proxy connection is closed and handle_request
  raises a ProxyError whose message is the status code, a space, and the ASCII-decoded
  reason phrase, with no retry (the CONNECT request is sent once and nothing follows
  the close); otherwise no ProxyError is raised.
\<close>

theorem C2_connect_refused:
  assumes "\<not> t_connected t"
    and "handle_request_of e (t_connection t) (connect_request t request) = Inr resp"
  shows "(\<not> (200 \<le> status resp \<and> status resp < 300) \<longrightarrow>
            tunnel_handle_request e t request =
              (Inl (ProxyError (format_d (status resp) @ '' '' @
                      decode_ascii_ignore
                        (case reason_phrase (response_extensions resp) of
                           None \<Rightarrow> [] | Some b \<Rightarrow> b))),
               t,
               [HandleRequest (t_connection t) (connect_request t request),
                Close (t_connection t)]))
       \<and> (200 \<le> status resp \<and> status resp < 300 \<longrightarrow>
            (\<forall>msg. fst (tunnel_handle_request e t request) \<noteq> Inl (ProxyError msg)))"
proof (intro conjI impI allI)
  assume "\<not> (200 \<le> status resp \<and> status resp < 300)"
  then have "status resp < 200 \<or> status resp > 299" by arith
  from handshake_refused [OF assms(2) this] assms(1)
  show "tunnel_handle_request e t request =
          (Inl (ProxyError (format_d (status resp) @ '' '' @
                  decode_ascii_ignore
                    (case reason_phrase (response_extensions resp) of
                       None \<Rightarrow> [] | Some b \<Rightarrow> b))),
           t,
           [HandleRequest (t_connection t) (connect_request t request),
            Close (t_connection t)])"
    by (rule tunnel_handle_request_failed [rotated])
next
  fix msg
  assume "200 \<le> status resp \<and> status resp < 300"
  then have ok: "\<not> (status resp < 200 \<or> status resp > 299)" by arith
  obtain r t' evs where hs:
    "connect_handshake e t request (connect_timeout request) = (r, t', evs)"
    by (cases "connect_handshake e t request (connect_timeout request)") auto
  have r: "r \<noteq> Inl (ProxyError msg)"
    using handshake_accepted_no_ProxyError [OF assms(2) ok, of "connect_timeout request" msg] hs
    by simp
  show "fst (tunnel_handle_request e t request) \<noteq> Inl (ProxyError msg)"
  proof (cases r)
    case (Inl err)
    with r hs assms(1) show ?thesis
      by (simp add: tunnel_handle_request_failed)
  next
    case (Inr u)
    with hs assms(1) have "fst (tunnel_handle_request e t request) =
        (case handle_request_of e (t_connection t') request of
           Inl err \<Rightarrow> Inl (Collaborator err) | Inr response \<Rightarrow> Inr response)"
      using tunnel_handle_request_connected [of t e request u t' evs] by simp
    then show ?thesis by (simp split: sum.splits)
  qed
qed

theorem C2_connect_refused_witness:
  "tunnel_handle_request (env_ex 407 ''Proxy Authentication Required'' None)
       (tunnel_ex True False remote_https_ex []) request_ex =
     (Inl (ProxyError ''407 Proxy Authentication Required''),
      tunnel_ex True False remote_https_ex [],
      [HandleRequest (HTTPConnection proxy_origin_ex None)
         (connect_request (tunnel_ex True False remote_https_ex []) request_ex),
       Close (HTTPConnection proxy_origin_ex None)])
   \<and> fst (tunnel_handle_request (env_ex 200 ''OK'' None)
            (tunnel_ex True False remote_https_ex []) request_ex)
       \<noteq> Inl (ProxyError ''200 OK'')"
proof -
  let ?t = "tunnel_ex True False remote_https_ex []"
  have nc: "\<not> t_connected ?t"
    by (simp add: tunnel_ex_def)
  have r407: "handle_request_of (env_ex 407 ''Proxy Authentication Required'' None)
      (t_connection ?t) (connect_request ?t request_ex)
      = Inr (response_ex 407 ''Proxy Authentication Required'')"
    by (simp add: env_ex_def)
  have r200: "handle_request_of (env_ex 200 ''OK'' None)
      (t_connection ?t) (connect_request ?t request_ex) = Inr (response_ex 200 ''OK'')"
    by (simp add: env_ex_def)
  have conn: "t_connection ?t = HTTPConnection proxy_origin_ex None"
    by (simp add: tunnel_ex_def)
  show ?thesis
    using C2_connect_refused [OF nc r407] C2_connect_refused [OF nc r200] conn
    by (simp add: response_ex_def format_d_407 decode_reason_407)
qed

text \<open>
  C3. After a successful CONNECT handshake on a TunnelHTTPConnection, the wrapped
  connection is replaced by an HTTP/2 connection if and only if ALPN negotiated h2
  (the destination is https and the stream that the handshake upgraded to TLS has an
  ssl_object whose selected ALPN protocol is h2), or http2 is enabled and http1 is
  disabled; otherwise by an HTTP/1.1 connection; in both cases the new connection is
  bound to the stream (the upgraded one for an https destination, else the raw one of
  the CONNECT response) and to the remote origin, and it is the connection that the
  request then goes to.
\<close>

theorem C3_protocol_selection:
  assumes "connect_handshake e t request tmo = (Inr u, t', evs)"
  shows "\<exists>resp raw s.
      handle_request_of e (t_connection t) (connect_request t request) = Inr resp
    \<and> network_stream (response_extensions resp) = Some raw
    \<and> (if scheme (t_remote_origin t) = ''https''
       then \<exists>kw. start_tls e raw kw = Inr s \<and> StartTLS raw kw \<in> set evs
       else s = raw)
    \<and> t_connection t' =
        (if (scheme (t_remote_origin t) = ''https''
             \<and> (\<exists>obj. get_ssl_object e s = Some obj
                       \<and> selected_alpn_protocol e obj = Some ''h2''))
            \<or> (t_http2 t \<and> \<not> t_http1 t)
         then HTTP2Connection (t_remote_origin t) s (t_keepalive_expiry t)
         else HTTP11Connection (t_remote_origin t) s (t_keepalive_expiry t))
    \<and> t_connected t'
    \<and> (\<not> t_connected t \<and> tmo = connect_timeout request \<longrightarrow>
         snd (tunnel_handle_request e t request) =
           (t', evs @ [HandleRequest (t_connection t') request]))"
proof -
  obtain resp where resp:
    "handle_request_of e (t_connection t) (connect_request t request) = Inr resp"
    using assms
    by (cases "handle_request_of e (t_connection t) (connect_request t request)")
       (auto simp: connect_handshake_def Let_def)
  have ok: "\<not> (status resp < 200 \<or> status resp > 299)"
    using assms resp by (auto simp: connect_handshake_def Let_def split: if_splits)
  obtain raw where raw: "network_stream (response_extensions resp) = Some raw"
    using assms resp ok
    by (cases "network_stream (response_extensions resp)")
       (auto simp: connect_handshake_def Let_def)
  have last: "\<not> t_connected t \<and> tmo = connect_timeout request \<longrightarrow>
         snd (tunnel_handle_request e t request) =
           (t', evs @ [HandleRequest (t_connection t') request])"
    using assms tunnel_handle_request_connected [of t e request u t' evs] by auto
  show ?thesis
  proof (cases "scheme (t_remote_origin t) = ''https''")
    case False
    with assms resp ok raw have "t' = create_tunnelled t raw False"
      by (simp add: connect_handshake_def Let_def)
    with False resp raw last show ?thesis
      by (auto simp: create_tunnelled_def)
  next
    case True
    with assms resp ok raw obtain s t'' uevs where
      up: "upgrade_to_tls e t tmo raw = (Inr (s, alpn_is_h2 e s), t'', uevs)"
      and t': "t' = create_tunnelled t'' s (alpn_is_h2 e s)"
      and evs: "evs = HandleRequest (t_connection t) (connect_request t request) # uevs"
      by (auto simp: connect_handshake_def Let_def upgrade_to_tls_def
               split: prod.splits sum.splits)
    from up obtain kw where kw: "start_tls e raw kw = Inr s" "uevs = [StartTLS raw kw]"
      and same: "t_remote_origin t'' = t_remote_origin t" "t_http1 t'' = t_http1 t"
        "t_http2 t'' = t_http2 t" "t_keepalive_expiry t'' = t_keepalive_expiry t"
      by (auto simp: upgrade_to_tls_def Let_def split: sum.splits)
    have h2: "alpn_is_h2 e s \<longleftrightarrow>
        (\<exists>obj. get_ssl_object e s = Some obj \<and> selected_alpn_protocol e obj = Some ''h2'')"
      by (simp add: alpn_is_h2_def split: option.splits)
    have conn: "t_connection t' =
        (if (\<exists>obj. get_ssl_object e s = Some obj
                   \<and> selected_alpn_protocol e obj = Some ''h2'')
            \<or> (t_http2 t \<and> \<not> t_http1 t)
         then HTTP2Connection (t_remote_origin t) s (t_keepalive_expiry t)
         else HTTP11Connection (t_remote_origin t) s (t_keepalive_expiry t))"
      using t' same h2 by (simp add: create_tunnelled_def)
    have conn': "t_connected t'"
      using t' by (simp add: create_tunnelled_def)
    have tls: "\<exists>kw. start_tls e raw kw = Inr s \<and> StartTLS raw kw \<in> set evs"
      using kw evs by auto
    from True resp raw tls conn conn' last show ?thesis
      by (intro exI [of _ resp] exI [of _ raw] exI [of _ s]) simp
  qed
qed

text \<open>
  Two handshakes to https://s:443 with http1 and http2 both enabled: when the peer
  selects h2 the new connection is HTTP/2, when it selects http/1.1 it is HTTP/1.1.
\<close>

theorem C3_protocol_selection_witness:
  "snd (tunnel_handle_request (env_ex 200 ''OK'' (Some ''h2''))
            (tunnel_ex True True remote_https_ex []) request_ex) =
     ((tunnel_ex True True remote_https_ex [])
        \<lparr>t_connection := HTTP2Connection remote_https_ex (NetworkStream 2) None,
         t_connected := True\<rparr>,
      [HandleRequest (HTTPConnection proxy_origin_ex None)
         (connect_request (tunnel_ex True True remote_https_ex []) request_ex),
       StartTLS (NetworkStream 1)
         \<lparr>kw_ssl_context = \<lparr>context_id = 0, alpn_protocols = [''http/1.1'', ''h2'']\<rparr>,
          kw_server_hostname = ''s'', kw_timeout = None\<rparr>,
       HandleRequest (HTTP2Connection remote_https_ex (NetworkStream 2) None) request_ex])
   \<and> snd (tunnel_handle_request (env_ex 200 ''OK'' (Some ''http/1.1''))
            (tunnel_ex True True remote_https_ex []) request_ex) =
     ((tunnel_ex True True remote_https_ex [])
        \<lparr>t_connection := HTTP11Connection remote_https_ex (NetworkStream 2) None,
         t_connected := True\<rparr>,
      [HandleRequest (HTTPConnection proxy_origin_ex None)
         (connect_request (tunnel_ex True True remote_https_ex []) request_ex),
       StartTLS (NetworkStream 1)
         \<lparr>kw_ssl_context = \<lparr>context_id = 0, alpn_protocols = [''http/1.1'', ''h2'']\<rparr>,
          kw_server_hostname = ''s'', kw_timeout = None\<rparr>,
       HandleRequest (HTTP11Connection remote_https_ex (NetworkStream 2) None) request_ex])"
proof -
  let ?t = "tunnel_ex True True remote_https_ex []"
  let ?t2 = "?t\<lparr>t_connection := HTTP2Connection remote_https_ex (NetworkStream 2) None,
               t_connected := True\<rparr>"
  let ?t1 = "?t\<lparr>t_connection := HTTP11Connection remote_https_ex (NetworkStream 2) None,
               t_connected := True\<rparr>"
  let ?evs = "[HandleRequest (HTTPConnection proxy_origin_ex None) (connect_request ?t request_ex),
       StartTLS (NetworkStream 1)
         \<lparr>kw_ssl_context = \<lparr>context_id = 0, alpn_protocols = [''http/1.1'', ''h2'']\<rparr>,
          kw_server_hostname = ''s'', kw_timeout = None\<rparr>]"
  have hs2: "connect_handshake (env_ex 200 ''OK'' (Some ''h2'')) ?t request_ex None
               = (Inr (), ?t2, ?evs)"
    by (simp add: connect_handshake_def upgrade_to_tls_def create_tunnelled_def Let_def
          env_ex_def response_ex_def tunnel_ex_def remote_https_ex_def alpn_is_h2_def
          decode_host_s)
  have hs1: "connect_handshake (env_ex 200 ''OK'' (Some ''http/1.1'')) ?t request_ex None
               = (Inr (), ?t1, ?evs)"
    by (simp add: connect_handshake_def upgrade_to_tls_def create_tunnelled_def Let_def
          env_ex_def response_ex_def tunnel_ex_def remote_https_ex_def alpn_is_h2_def
          decode_host_s)
  have nc: "\<not> t_connected ?t \<and> None = connect_timeout request_ex"
    by (simp add: tunnel_ex_def connect_timeout_def request_ex_def)
  from C3_protocol_selection [OF hs2] nc
  have r2: "snd (tunnel_handle_request (env_ex 200 ''OK'' (Some ''h2'')) ?t request_ex) =
          (?t2, ?evs @ [HandleRequest (t_connection ?t2) request_ex])"
    by blast
  from C3_protocol_selection [OF hs1] nc
  have r1: "snd (tunnel_handle_request (env_ex 200 ''OK'' (Some ''http/1.1'')) ?t request_ex) =
          (?t1, ?evs @ [HandleRequest (t_connection ?t1) request_ex])"
    by blast
  from r1 r2 show ?thesis by simp
qed

text \<open>
  C4, as amended. In a CONNECT handshake whose response has a status in [200, 300) and
  carries a network stream: for a destination whose scheme is not https the stream is
  not upgraded; for an https destination whose host is ASCII, start_tls is called once
  on that stream, with the ALPN list ["http/1.1", "h2"] when http2 is enabled and
  ["http/1.1"] otherwise, set on the configured or default SSL context, with the
  ASCII-decoded host of the remote origin as server_hostname and the connect timeout.
\<close>

theorem C4_tls_upgrade:
  assumes "handle_request_of e (t_connection t) (connect_request t request) = Inr resp"
    and "200 \<le> status resp \<and> status resp < 300"
    and "network_stream (response_extensions resp) = Some raw"
  shows "(scheme (t_remote_origin t) \<noteq> ''https'' \<longrightarrow>
            snd (snd (connect_handshake e t request tmo)) =
              [HandleRequest (t_connection t) (connect_request t request)])
       \<and> (scheme (t_remote_origin t) = ''https''
            \<and> decode_ascii (host (t_remote_origin t)) = Inr hostname \<longrightarrow>
            snd (snd (connect_handshake e t request tmo)) =
              [HandleRequest (t_connection t) (connect_request t request),
               StartTLS raw
                 \<lparr>kw_ssl_context =
                    (case t_ssl_context t of None \<Rightarrow> default_ssl_context e | Some c \<Rightarrow> c)
                      \<lparr>alpn_protocols :=
                         (if t_http2 t then [''http/1.1'', ''h2''] else [''http/1.1''])\<rparr>,
                  kw_server_hostname = hostname,
                  kw_timeout = tmo\<rparr>])"
proof -
  have ok: "\<not> (status resp < 200 \<or> status resp > 299)"
    using assms(2) by arith
  show ?thesis
    using assms(1) assms(3) ok
    by (auto simp: connect_handshake_def upgrade_to_tls_def Let_def
             split: sum.splits prod.splits)
qed

theorem C4_tls_upgrade_witness:
  "snd (snd (connect_handshake (env_ex 200 ''OK'' None)
               (tunnel_ex True False remote_https_ex []) request_ex None)) =
     [HandleRequest (HTTPConnection proxy_origin_ex None)
        (connect_request (tunnel_ex True False remote_https_ex []) request_ex),
      StartTLS (NetworkStream 1)
        \<lparr>kw_ssl_context = \<lparr>context_id = 0, alpn_protocols = [''http/1.1'']\<rparr>,
         kw_server_hostname = ''s'', kw_timeout = None\<rparr>]
   \<and> snd (snd (connect_handshake (env_ex 200 ''OK'' None)
               (tunnel_ex True False remote_http_ex []) request_ex None)) =
     [HandleRequest (HTTPConnection proxy_origin_ex None)
        (connect_request (tunnel_ex True False remote_http_ex []) request_ex)]"
proof -
  let ?e = "env_ex 200 ''OK'' None"
  let ?t = "tunnel_ex True False remote_https_ex []"
  let ?t' = "tunnel_ex True False remote_http_ex []"
  have r: "handle_request_of ?e (t_connection ?t) (connect_request ?t request_ex)
             = Inr (response_ex 200 ''OK'')"
    by (simp add: env_ex_def)
  have r': "handle_request_of ?e (t_connection ?t') (connect_request ?t' request_ex)
             = Inr (response_ex 200 ''OK'')"
    by (simp add: env_ex_def)
  have st: "200 \<le> status (response_ex 200 ''OK'') \<and> status (response_ex 200 ''OK'') < 300"
    by (simp add: response_ex_def)
  have ns: "network_stream (response_extensions (response_ex 200 ''OK''))
             = Some (NetworkStream 1)"
    by (simp add: response_ex_def)
  have dec: "decode_ascii (host (t_remote_origin ?t)) = Inr ''s''"
    by (simp add: tunnel_ex_def remote_https_ex_def decode_host_s)
  show ?thesis
    using C4_tls_upgrade [OF r st ns, where hostname = "''s''" and tmo = None]
          C4_tls_upgrade [OF r' st ns, where hostname = "''s''" and tmo = None] dec
    by (simp add: tunnel_ex_def remote_https_ex_def remote_http_ex_def env_ex_def)
qed

text \<open>
  C4, as the claim states it, fails: with http2 enabled and the destination
  https://s:443, the one TLS upgrade of the handshake offers ["http/1.1", "h2"], which
  is not the list ["h2", "http/1.1"].
\<close>

theorem C4_alpn_order_counterexample:
  "t_http2 (tunnel_ex True True remote_https_ex [])
   \<and> offered_alpn (snd (snd (connect_handshake (env_ex 200 ''OK'' (Some ''h2''))
                       (tunnel_ex True True remote_https_ex []) request_ex None)))
       = [[''http/1.1'', ''h2'']]
   \<and> offered_alpn (snd (snd (connect_handshake (env_ex 200 ''OK'' (Some ''h2''))
                       (tunnel_ex True True remote_https_ex []) request_ex None)))
       \<noteq> [[''h2'', ''http/1.1'']]"
  by (simp add: connect_handshake_def upgrade_to_tls_def create_tunnelled_def Let_def
        env_ex_def response_ex_def tunnel_ex_def remote_https_ex_def alpn_is_h2_def
        decode_host_s)

section \<open>The cleanup after a failed request\<close>

lemma shield_not_bound: "\<not> is_bound ''AsyncShieldCancellation''"
  by (simp add: is_bound_def interfaces_globals_def)

text \<open>
  C6. The claim is that, whenever handle_request raises an exception after the request
  status was enqueued, the cleanup removes that status from the pending queue if no
  connection was bound to it, and otherwise informs the bound connection, before
  raising the original exception again. The code does not: whenever a status of the
  request is in the queue, the cleanup raises NameError for the name
  AsyncShieldCancellation in place of the original exception, the queue is as it
  was (an unbound status is still in it, a bound connection is untouched), and
  response_closed is not called. Only when no status of the request is queued is the
  original exception raised again.
\<close>

theorem C6_cleanup_raises_NameError:
  "(filter (\<lambda>st. status_request st = request) requests \<noteq> [] \<longrightarrow>
      request_cleanup (Some exc) requests request =
        (Inl (NameError ''AsyncShieldCancellation''), requests, []))
   \<and> (filter (\<lambda>st. status_request st = request) requests = [] \<longrightarrow>
      request_cleanup (Some exc) requests request = (Inl exc, requests, []))"
  by (simp add: request_cleanup_def Let_def shield_not_bound)

text \<open>
  At the failing inputs: the request 7 has failed with KeyError; its status is in the
  queue, once without a connection and once bound to a connection whose own cleanup
  would have marked the nested connection as failed.
\<close>

theorem C6_cleanup_raises_NameError_witness:
  "request_cleanup (Some (KeyError ''k'')) [unbound_status_ex, other_status_ex] 7
     = (Inl (NameError ''AsyncShieldCancellation''), [unbound_status_ex, other_status_ex], [])
   \<and> status_connection unbound_status_ex = None
   \<and> request_cleanup (Some (KeyError ''k'')) [bound_status_ex] 7
     = (Inl (NameError ''AsyncShieldCancellation''), [bound_status_ex], [])
   \<and> status_connection bound_status_ex = Some conn_ex
   \<and> connection_cleanup conn_ex 7 (KeyError ''k'')
     = (KeyError ''k'',
        AsyncConnection 1 (SubConnection (AsyncConnection 2 AttributeNone True)) False)
   \<and> request_cleanup (Some (KeyError ''k'')) [other_status_ex] 7
     = (Inl (KeyError ''k''), [other_status_ex], [])"
proof -
  have f1: "filter (\<lambda>st. status_request st = 7) [unbound_status_ex, other_status_ex] \<noteq> []"
    by (simp add: unbound_status_ex_def)
  have f2: "filter (\<lambda>st. status_request st = 7) [bound_status_ex] \<noteq> []"
    by (simp add: bound_status_ex_def)
  have f3: "filter (\<lambda>st. status_request st = 7) [other_status_ex] = []"
    by (simp add: other_status_ex_def)
  have c1: "status_connection unbound_status_ex = None"
    by (simp add: unbound_status_ex_def)
  have c2: "status_connection bound_status_ex = Some conn_ex"
    by (simp add: bound_status_ex_def)
  have cc: "connection_cleanup conn_ex 7 (KeyError ''k'')
     = (KeyError ''k'',
        AsyncConnection 1 (SubConnection (AsyncConnection 2 AttributeNone True)) False)"
    by (simp add: conn_ex_def)
  show ?thesis
    using C6_cleanup_raises_NameError
            [of 7 "[unbound_status_ex, other_status_ex]" "KeyError ''k''"]
          C6_cleanup_raises_NameError [of 7 "[bound_status_ex]" "KeyError ''k''"]
          C6_cleanup_raises_NameError [of 7 "[other_status_ex]" "KeyError ''k''"]
          f1 f2 f3 c1 c2 cc
    by simp
qed

end
